theory Spec2Isabelle
  imports Main "HOL-Library.Word"
begin

section \<open>Strings\<close>

text \<open>
  Strings are lists of characters and are read as ASCII text: the case mappings change the
  letters \<open>a\<close>..\<open>z\<close> and \<open>A\<close>..\<open>Z\<close> only, and \<open>trim\<close> strips the ASCII white
  space characters (tab, line feed, vertical tab, form feed, carriage return, space) from
  both ends, as JavaScript's \<open>toUpperCase\<close>, \<open>toLowerCase\<close> and \<open>trim\<close> do on ASCII
  text.
\<close>

definition isWhiteSpace :: "char \<Rightarrow> bool" where
  "isWhiteSpace c = (of_char c \<in> {9, 10, 11, 12, 13, 32 :: nat})"

definition toUpperChar :: "char \<Rightarrow> char" where
  "toUpperChar c =
     (if 97 \<le> (of_char c :: nat) \<and> (of_char c :: nat) \<le> 122
      then char_of (of_char c - 32 :: nat) else c)"

definition toLowerChar :: "char \<Rightarrow> char" where
  "toLowerChar c =
     (if 65 \<le> (of_char c :: nat) \<and> (of_char c :: nat) \<le> 90
      then char_of (of_char c + 32 :: nat) else c)"

definition toUpperCase :: "string \<Rightarrow> string" where
  "toUpperCase s = map toUpperChar s"

definition toLowerCase :: "string \<Rightarrow> string" where
  "toLowerCase s = map toLowerChar s"

definition trim :: "string \<Rightarrow> string" where
  "trim s = rev (dropWhile isWhiteSpace (rev (dropWhile isWhiteSpace s)))"

text \<open>The JavaScript \<open>a || b\<close> on a nullable string and on a nullable integer: the empty
  string and zero are falsy, like \<open>null\<close>.\<close>

definition or_string :: "string option \<Rightarrow> string \<Rightarrow> string" where
  "or_string a b = (case a of None \<Rightarrow> b | Some v \<Rightarrow> if v = [] then b else v)"

definition or_int :: "int option \<Rightarrow> int \<Rightarrow> int" where
  "or_int a b = (case a of None \<Rightarrow> b | Some v \<Rightarrow> if v = 0 then b else v)"

section \<open>The Invoice model\<close>

type_synonym bytes = "8 word list"
type_synonym date = nat

datatype payment_status = Paid | Unpaid

text \<open>A row of the \<open>invoices\<close> table. A nullable column is an option; \<open>id\<close> is called
  \<open>invoice_id\<close>. Amounts are counted in hundredths (\<open>DECIMAL(10, 2)\<close>).\<close>

record invoice =
  invoice_id :: string
  invoiceNumber :: string
  customerEmail :: string
  invoiceDate :: date
  dueDate :: date
  paymentStatus :: payment_status
  pdfUrl :: "string option"
  pdfData :: "bytes option"
  pdfFileName :: "string option"
  pdfMimeType :: "string option"
  pdfSize :: "int option"
  invoiceAmount :: int
  createdAt :: date
  updatedAt :: date

text \<open>
  An object of column values as the handlers build it (\<open>invoiceData\<close>, \<open>updates\<close>) or
  receive it (\<open>req.body\<close>): one key for each column of the table, and every key may be
  absent. The update handler spreads the whole request body into \<open>updates\<close>, so a body
  can carry the primary key, the timestamps and the attachment columns as well as the
  validated ones. A key that is present carries a value of the column's type.
\<close>

record attrs =
  id_in :: "string option"
  invoiceNumber_in :: "string option"
  customerEmail_in :: "string option"
  invoiceDate_in :: "date option"
  dueDate_in :: "date option"
  paymentStatus_in :: "payment_status option"
  invoiceAmount_in :: "int option"
  pdfUrl_in :: "string option"
  pdfData_in :: "bytes option"
  pdfFileName_in :: "string option"
  pdfMimeType_in :: "string option"
  pdfSize_in :: "int option"
  createdAt_in :: "date option"
  updatedAt_in :: "date option"

text \<open>
  What the model takes from outside: the \<open>isEmail\<close> validator, the identifier generated
  for a new row (\<open>DataTypes.UUIDV4\<close>) and the current time (\<open>DataTypes.NOW\<close>,
  \<open>new Date()\<close>).
\<close>

record env =
  isEmail :: "string \<Rightarrow> bool"
  UUIDV4 :: string
  NOW :: date

datatype store_error = ValidationError | DuplicateKey | TypeError

text \<open>The two setters of the model.\<close>

definition set_invoiceNumber :: "string \<Rightarrow> string" where
  "set_invoiceNumber value = toUpperCase (trim value)"

definition set_customerEmail :: "string \<Rightarrow> string" where
  "set_customerEmail value = trim (toLowerCase value)"

definition findByPk :: "invoice list \<Rightarrow> string \<Rightarrow> invoice option" where
  "findByPk table pk = find (\<lambda>r. invoice_id r = pk) table"

definition findOne_invoiceNumber :: "invoice list \<Rightarrow> string \<Rightarrow> invoice option" where
  "findOne_invoiceNumber table n = find (\<lambda>r. invoiceNumber r = n) table"

definition exclude_pdfData :: "invoice \<Rightarrow> invoice" where
  "exclude_pdfData r = r\<lparr>pdfData := None\<rparr>"

text \<open>\<open>findAll\<close> with \<open>order: [['createdAt', 'DESC']]\<close> and \<open>pdfData\<close> excluded.\<close>

definition findAll_desc :: "invoice list \<Rightarrow> invoice list" where
  "findAll_desc table = map exclude_pdfData (rev (sort_key createdAt table))"

text \<open>
  Building an instance from column values: a setter called on a missing value throws, a
  missing \<open>dueDate\<close> and an address that is not an email fail validation, and a column
  with a default takes it when no value is given. \<open>updatedAt\<close> is the time of the
  write.
\<close>

definition build :: "env \<Rightarrow> attrs \<Rightarrow> store_error + invoice" where
  "build env v =
     (case invoiceNumber_in v of None \<Rightarrow> Inl TypeError | Some n \<Rightarrow>
     (case customerEmail_in v of None \<Rightarrow> Inl TypeError | Some e \<Rightarrow>
     (case dueDate_in v of None \<Rightarrow> Inl ValidationError | Some d \<Rightarrow>
        if \<not> isEmail env (set_customerEmail e) then Inl ValidationError
        else Inr \<lparr>invoice_id = (case id_in v of None \<Rightarrow> UUIDV4 env | Some i \<Rightarrow> i),
                  invoiceNumber = set_invoiceNumber n,
                  customerEmail = set_customerEmail e,
                  invoiceDate = (case invoiceDate_in v of None \<Rightarrow> NOW env | Some t \<Rightarrow> t),
                  dueDate = d,
                  paymentStatus = (case paymentStatus_in v of None \<Rightarrow> Unpaid | Some p \<Rightarrow> p),
                  pdfUrl = pdfUrl_in v,
                  pdfData = pdfData_in v,
                  pdfFileName = pdfFileName_in v,
                  pdfMimeType =
                    (case pdfMimeType_in v of None \<Rightarrow> Some ''application/pdf'' | Some m \<Rightarrow> Some m),
                  pdfSize = pdfSize_in v,
                  invoiceAmount = (case invoiceAmount_in v of None \<Rightarrow> 0 | Some a \<Rightarrow> a),
                  createdAt = (case createdAt_in v of None \<Rightarrow> NOW env | Some t \<Rightarrow> t),
                  updatedAt = NOW env\<rparr>)))"

text \<open>\<open>Invoice.create\<close>: the row is inserted unless its primary key or its
  \<open>invoiceNumber\<close> (unique index) is already in the table.\<close>

definition Invoice_create ::
  "env \<Rightarrow> invoice list \<Rightarrow> attrs \<Rightarrow> (store_error + invoice) \<times> invoice list" where
  "Invoice_create env table v =
     (case build env v of
        Inl e \<Rightarrow> (Inl e, table)
      | Inr r \<Rightarrow>
          if \<exists>x \<in> set table. invoice_id x = invoice_id r \<or> invoiceNumber x = invoiceNumber r
          then (Inl DuplicateKey, table)
          else (Inr r, table @ [r]))"

text \<open>The values of an update, merged into a row: a key that is present replaces the
  column, the primary key included, and an absent one leaves it. \<open>updatedAt\<close> is set to
  the time of the write whatever the values say.\<close>

definition merge :: "date \<Rightarrow> attrs \<Rightarrow> invoice \<Rightarrow> invoice" where
  "merge now v r =
     r\<lparr>invoice_id := (case id_in v of None \<Rightarrow> invoice_id r | Some i \<Rightarrow> i),
       invoiceNumber := (case invoiceNumber_in v of None \<Rightarrow> invoiceNumber r | Some n \<Rightarrow> n),
       customerEmail := (case customerEmail_in v of None \<Rightarrow> customerEmail r | Some e \<Rightarrow> e),
       invoiceDate := (case invoiceDate_in v of None \<Rightarrow> invoiceDate r | Some t \<Rightarrow> t),
       dueDate := (case dueDate_in v of None \<Rightarrow> dueDate r | Some t \<Rightarrow> t),
       paymentStatus := (case paymentStatus_in v of None \<Rightarrow> paymentStatus r | Some p \<Rightarrow> p),
       invoiceAmount := (case invoiceAmount_in v of None \<Rightarrow> invoiceAmount r | Some a \<Rightarrow> a),
       pdfUrl := (case pdfUrl_in v of None \<Rightarrow> pdfUrl r | Some u \<Rightarrow> Some u),
       pdfData := (case pdfData_in v of None \<Rightarrow> pdfData r | Some b \<Rightarrow> Some b),
       pdfFileName := (case pdfFileName_in v of None \<Rightarrow> pdfFileName r | Some f \<Rightarrow> Some f),
       pdfMimeType := (case pdfMimeType_in v of None \<Rightarrow> pdfMimeType r | Some m \<Rightarrow> Some m),
       pdfSize := (case pdfSize_in v of None \<Rightarrow> pdfSize r | Some n \<Rightarrow> Some n),
       createdAt := (case createdAt_in v of None \<Rightarrow> createdAt r | Some t \<Rightarrow> t),
       updatedAt := now\<rparr>"

text \<open>The setters applied to the values of an update.\<close>

definition apply_setters :: "attrs \<Rightarrow> attrs" where
  "apply_setters v =
     v\<lparr>invoiceNumber_in := map_option set_invoiceNumber (invoiceNumber_in v),
       customerEmail_in := map_option set_customerEmail (customerEmail_in v)\<rparr>"

text \<open>Values that name no column to write: \<open>updatedAt\<close> does not count, it is
  replaced by the time of the write.\<close>

definition names_no_column :: "attrs \<Rightarrow> bool" where
  "names_no_column v =
     (id_in v = None \<and> invoiceNumber_in v = None \<and> customerEmail_in v = None \<and>
      invoiceDate_in v = None \<and> dueDate_in v = None \<and> paymentStatus_in v = None \<and>
      invoiceAmount_in v = None \<and> pdfUrl_in v = None \<and> pdfData_in v = None \<and>
      pdfFileName_in v = None \<and> pdfMimeType_in v = None \<and> pdfSize_in v = None \<and>
      createdAt_in v = None)"

text \<open>
  \<open>Invoice.update(values, { where: { id } })\<close>: the values go through the setters and are
  validated. When they name no column nothing is written and no row counts as affected.
  Otherwise the row with that key is rewritten, its key too when the values name \<open>id\<close>;
  the result is the number of rows affected. A new \<open>invoiceNumber\<close> or a new \<open>id\<close>
  held by another row violates the unique index or the primary key.
\<close>

definition Invoice_update ::
  "env \<Rightarrow> invoice list \<Rightarrow> attrs \<Rightarrow> string \<Rightarrow> (store_error + nat) \<times> invoice list" where
  "Invoice_update env table v pk =
     (let v' = apply_setters v in
      if (case customerEmail_in v' of None \<Rightarrow> False | Some e \<Rightarrow> \<not> isEmail env e)
      then (Inl ValidationError, table)
      else if names_no_column v' then (Inr 0, table)
      else if findByPk table pk = None then (Inr 0, table)
      else if (case invoiceNumber_in v' of None \<Rightarrow> False
               | Some n \<Rightarrow> \<exists>x \<in> set table. invoice_id x \<noteq> pk \<and> invoiceNumber x = n) \<or>
              (case id_in v' of None \<Rightarrow> False
               | Some i \<Rightarrow> \<exists>x \<in> set table. invoice_id x \<noteq> pk \<and> invoice_id x = i)
      then (Inl DuplicateKey, table)
      else (Inr 1, map (\<lambda>r. if invoice_id r = pk then merge (NOW env) v' r else r) table))"

text \<open>\<open>Invoice.destroy({ where: { id } })\<close>: the number of rows removed, and the table
  without them.\<close>

definition Invoice_destroy :: "invoice list \<Rightarrow> string \<Rightarrow> nat \<times> invoice list" where
  "Invoice_destroy table pk =
     (length (filter (\<lambda>r. invoice_id r = pk) table), filter (\<lambda>r. invoice_id r \<noteq> pk) table)"

section \<open>The invoice routes\<close>

record principal =
  role :: string
  email :: string

text \<open>The uploaded file as the upload middleware hands it over (\<open>req.file\<close>).\<close>

record upload =
  buffer :: bytes
  originalname :: string
  mimetype :: string
  size_file :: int

text \<open>
  A request as a handler sees it: the principal set by the authentication middleware
  (\<open>req.user\<close>), the route and query parameters, the body after the validation chain has
  run, the uploaded file if there is one, and whether \<open>validationResult(req)\<close> is empty.
\<close>

record request =
  user :: principal
  params_id :: string
  params_invoiceNumber :: string
  query_email :: "string option"
  body :: attrs
  file_req :: "upload option"
  validation_ok :: bool

record pdf_headers =
  contentType :: string
  contentDisposition :: string
  contentLength :: int

datatype response =
    AdminRejected
  | BadRequest
  | Error nat string
  | Created string invoice
  | Ok_invoice "string option" invoice
  | Ok_invoices "invoice list"
  | Ok_message string
  | Pdf pdf_headers bytes

abbreviation NotFound :: response where
  "NotFound \<equiv> Error 404 ''Invoice not found''"

abbreviation AttachmentMissing :: response where
  "AttachmentMissing \<equiv> Error 404 ''PDF not found for this invoice''"

abbreviation AccessDenied :: response where
  "AccessDenied \<equiv> Error 403 ''Access denied''"

abbreviation ServerError :: response where
  "ServerError \<equiv> Error 500 ''Server error''"

text \<open>
  Modelled from the spec: \<open>requireAdmin\<close> is imported from \<open>middleware/auth.js\<close>, which is
  not among the sources. The spec gates create, update, delete and the full list to admin
  principals at the operation level, before anything else runs; the model lets a principal
  through when its role is \<open>admin\<close> (the role the handlers themselves test for) and
  answers \<open>AdminRejected\<close> otherwise.
\<close>

definition requireAdmin :: "principal \<Rightarrow> bool" where
  "requireAdmin u = (role u = ''admin'')"

text \<open>The permission test that the three single-invoice handlers share, as each of them
  writes it.\<close>

definition access_denied :: "principal \<Rightarrow> invoice \<Rightarrow> bool" where
  "access_denied u invoice = (role u \<noteq> ''admin'' \<and> email u \<noteq> customerEmail invoice)"

text \<open>The four attachment columns taken from an uploaded file.\<close>

definition with_file :: "upload \<Rightarrow> attrs \<Rightarrow> attrs" where
  "with_file f v =
     v\<lparr>pdfData_in := Some (buffer f),
       pdfFileName_in := Some (originalname f),
       pdfMimeType_in := Some (mimetype f),
       pdfSize_in := Some (size_file f)\<rparr>"

text \<open>\<open>POST /\<close>: the values handed to \<open>Invoice.create\<close>. Only the six named keys
  of the body are read.\<close>

definition invoiceData :: "env \<Rightarrow> request \<Rightarrow> attrs" where
  "invoiceData env req =
     (let b = body req;
          d = \<lparr>id_in = None,
               invoiceNumber_in = invoiceNumber_in b,
               customerEmail_in = customerEmail_in b,
               invoiceDate_in = Some (case invoiceDate_in b of None \<Rightarrow> NOW env | Some t \<Rightarrow> t),
               dueDate_in = dueDate_in b,
               paymentStatus_in = Some (case paymentStatus_in b of None \<Rightarrow> Unpaid | Some p \<Rightarrow> p),
               invoiceAmount_in = invoiceAmount_in b,
               pdfUrl_in = None, pdfData_in = None, pdfFileName_in = None,
               pdfMimeType_in = None, pdfSize_in = None,
               createdAt_in = None, updatedAt_in = None\<rparr>
      in case file_req req of None \<Rightarrow> d | Some f \<Rightarrow> with_file f d)"

text \<open>\<open>POST /\<close>: create an invoice. The handler builds \<open>responseInvoice\<close> without
  \<open>pdfData\<close> and then sends \<open>invoice\<close>.\<close>

definition post_invoice :: "env \<Rightarrow> invoice list \<Rightarrow> request \<Rightarrow> response \<times> invoice list" where
  "post_invoice env table req =
     (if \<not> requireAdmin (user req) then (AdminRejected, table)
      else if \<not> validation_ok req then (BadRequest, table)
      else case Invoice_create env table (invoiceData env req) of
             (Inl e, table') \<Rightarrow> (ServerError, table')
           | (Inr invoice, table') \<Rightarrow> (Created ''Invoice created'' invoice, table'))"

text \<open>\<open>PUT /:id\<close>: the values handed to \<open>Invoice.update\<close>, the whole body with the
  attachment columns overwritten when a file comes with the request.\<close>

definition updates :: "request \<Rightarrow> attrs" where
  "updates req = (case file_req req of None \<Rightarrow> body req | Some f \<Rightarrow> with_file f (body req))"

text \<open>\<open>PUT /:id\<close>: update an invoice. When the row is no longer found under the
  route's id after the update, \<open>invoice.toJSON()\<close> throws and the answer is the server
  error.\<close>

definition put_invoice :: "env \<Rightarrow> invoice list \<Rightarrow> request \<Rightarrow> response \<times> invoice list" where
  "put_invoice env table req =
     (if \<not> requireAdmin (user req) then (AdminRejected, table)
      else if \<not> validation_ok req then (BadRequest, table)
      else case Invoice_update env table (updates req) (params_id req) of
             (Inl e, table') \<Rightarrow> (ServerError, table')
           | (Inr updated, table') \<Rightarrow>
               if updated = 0 then (NotFound, table')
               else (case findByPk table' (params_id req) of
                       None \<Rightarrow> (ServerError, table')
                     | Some invoice \<Rightarrow>
                         (Ok_invoice (Some ''Invoice updated'') (exclude_pdfData invoice), table')))"

text \<open>\<open>GET /\<close>: all invoices.\<close>

definition get_invoices :: "invoice list \<Rightarrow> request \<Rightarrow> response" where
  "get_invoices table req =
     (if \<not> requireAdmin (user req) then AdminRejected
      else Ok_invoices (findAll_desc table))"

definition pdf_filename :: "invoice \<Rightarrow> string" where
  "pdf_filename invoice =
     or_string (pdfFileName invoice) (''invoice-'' @ invoiceNumber invoice @ ''.pdf'')"

text \<open>\<open>res.send\<close> with a buffer: the response goes out with the headers set so far,
  except that \<open>Content-Length\<close> is set to the length of the buffer, over a value set
  before.\<close>

definition res_send :: "pdf_headers \<Rightarrow> bytes \<Rightarrow> response" where
  "res_send headers chunk = Pdf (headers\<lparr>contentLength := int (length chunk)\<rparr>) chunk"

text \<open>\<open>res.setHeader\<close> throws on a value with a control character other than the tab
  (the codes 0 to 31 without 9, and 127), and the handler's \<open>catch\<close> answers the server
  error.\<close>

definition control_chars :: "char list" where
  "control_chars =
     [CHR 0x00, CHR 0x01, CHR 0x02, CHR 0x03, CHR 0x04, CHR 0x05, CHR 0x06, CHR 0x07,
      CHR 0x08, CHR 0x0A, CHR 0x0B, CHR 0x0C, CHR 0x0D, CHR 0x0E, CHR 0x0F, CHR 0x10,
      CHR 0x11, CHR 0x12, CHR 0x13, CHR 0x14, CHR 0x15, CHR 0x16, CHR 0x17, CHR 0x18,
      CHR 0x19, CHR 0x1A, CHR 0x1B, CHR 0x1C, CHR 0x1D, CHR 0x1E, CHR 0x1F, CHR 0x7F]"

definition valid_header_value :: "string \<Rightarrow> bool" where
  "valid_header_value s = (\<forall>c \<in> set s. c \<notin> set control_chars)"

definition setHeaders_send :: "pdf_headers \<Rightarrow> bytes \<Rightarrow> response" where
  "setHeaders_send headers data =
     (if valid_header_value (contentType headers) \<and>
         valid_header_value (contentDisposition headers)
      then res_send headers data else ServerError)"

text \<open>\<open>GET /:id/pdf\<close>: download the PDF. The handler sets the three headers and sends
  the bytes.\<close>

definition get_pdf :: "invoice list \<Rightarrow> request \<Rightarrow> response" where
  "get_pdf table req =
     (case findByPk table (params_id req) of
        None \<Rightarrow> NotFound
      | Some invoice \<Rightarrow>
          if role (user req) \<noteq> ''admin'' \<and> email (user req) \<noteq> customerEmail invoice
          then AccessDenied
          else (case pdfData invoice of
                  None \<Rightarrow> AttachmentMissing
                | Some data \<Rightarrow>
                    setHeaders_send
                      \<lparr>contentType = or_string (pdfMimeType invoice) ''application/pdf'',
                       contentDisposition =
                         ''attachment; filename='' @ [CHR 0x22] @ pdf_filename invoice @ [CHR 0x22],
                       contentLength = or_int (pdfSize invoice) (int (length data))\<rparr>
                      data))"

text \<open>\<open>GET /:id/pdf/view\<close>: show the PDF inline.\<close>

definition get_pdf_view :: "invoice list \<Rightarrow> request \<Rightarrow> response" where
  "get_pdf_view table req =
     (case findByPk table (params_id req) of
        None \<Rightarrow> NotFound
      | Some invoice \<Rightarrow>
          if role (user req) \<noteq> ''admin'' \<and> email (user req) \<noteq> customerEmail invoice
          then AccessDenied
          else (case pdfData invoice of
                  None \<Rightarrow> AttachmentMissing
                | Some data \<Rightarrow>
                    setHeaders_send
                      \<lparr>contentType = or_string (pdfMimeType invoice) ''application/pdf'',
                       contentDisposition =
                         ''inline; filename='' @ [CHR 0x22] @ pdf_filename invoice @ [CHR 0x22],
                       contentLength = or_int (pdfSize invoice) (int (length data))\<rparr>
                      data))"

text \<open>\<open>GET /search/:invoiceNumber\<close>: the parameter goes into the query as it is.\<close>

definition get_search :: "invoice list \<Rightarrow> request \<Rightarrow> response" where
  "get_search table req =
     (case findOne_invoiceNumber table (params_invoiceNumber req) of
        None \<Rightarrow> NotFound
      | Some invoice \<Rightarrow> Ok_invoice None (exclude_pdfData invoice))"

text \<open>\<open>GET /customer\<close>: the invoices of one customer email; a query without \<open>email\<close>
  makes the store throw.\<close>

definition get_customer :: "invoice list \<Rightarrow> request \<Rightarrow> response" where
  "get_customer table req =
     (case query_email req of
        None \<Rightarrow> ServerError
      | Some e \<Rightarrow> Ok_invoices (findAll_desc (filter (\<lambda>r. customerEmail r = e) table)))"

text \<open>\<open>GET /:id\<close>: the details of one invoice, without the PDF bytes.\<close>

definition get_invoice :: "invoice list \<Rightarrow> request \<Rightarrow> response" where
  "get_invoice table req =
     (case findByPk table (params_id req) of
        None \<Rightarrow> NotFound
      | Some invoice \<Rightarrow>
          if role (user req) \<noteq> ''admin'' \<and> email (user req) \<noteq> customerEmail invoice
          then AccessDenied
          else Ok_invoice None (exclude_pdfData invoice))"

text \<open>\<open>DELETE /:id\<close>.\<close>

definition delete_invoice :: "invoice list \<Rightarrow> request \<Rightarrow> response \<times> invoice list" where
  "delete_invoice table req =
     (if \<not> requireAdmin (user req) then (AdminRejected, table)
      else case Invoice_destroy table (params_id req) of
             (deleted, table') \<Rightarrow>
               if deleted = 0 then (NotFound, table')
               else (Ok_message ''Invoice deleted successfully'', table'))"

section \<open>The state of the attachment columns\<close>

text \<open>A body that names none of the four attachment columns, the shape of the attachment
  columns of one invoice, and the tables the writing handlers produce from the empty one
  when no update body names an attachment column.\<close>

definition no_attachment_keys :: "attrs \<Rightarrow> bool" where
  "no_attachment_keys b =
     (pdfData_in b = None \<and> pdfFileName_in b = None \<and> pdfMimeType_in b = None \<and> pdfSize_in b = None)"

definition attachment_fields_ok :: "invoice \<Rightarrow> bool" where
  "attachment_fields_ok r =
     ((pdfData r = None \<and> pdfFileName r = None \<and> pdfSize r = None \<and>
       pdfMimeType r = Some ''application/pdf'') \<or>
      (pdfData r \<noteq> None \<and> pdfFileName r \<noteq> None \<and> pdfSize r \<noteq> None \<and>
       pdfMimeType r \<noteq> None))"

text \<open>The four attachment columns of a row are those of one upload.\<close>

definition attachment_from :: "upload \<Rightarrow> invoice \<Rightarrow> bool" where
  "attachment_from f r =
     (pdfData r = Some (buffer f) \<and> pdfFileName r = Some (originalname f) \<and>
      pdfMimeType r = Some (mimetype f) \<and> pdfSize r = Some (size_file f))"

inductive reachable :: "invoice list \<Rightarrow> bool" where
  empty: "reachable []"
| post: "reachable table \<Longrightarrow> reachable (snd (post_invoice env table req))"
| put: "reachable table \<Longrightarrow> no_attachment_keys (body req) \<Longrightarrow>
          reachable (snd (put_invoice env table req))"
| delete: "reachable table \<Longrightarrow> reachable (snd (delete_invoice table req))"

section \<open>Concrete requests\<close>

text \<open>A validator that asks for an \<open>@\<close>, two environments, an admin, two uploads and
  the requests and invoices of a small session.\<close>

definition ex_env :: env where
  "ex_env = \<lparr>isEmail = (\<lambda>s. CHR ''@'' \<in> set s), UUIDV4 = ''id-1'', NOW = 1\<rparr>"

definition ex_env2 :: env where
  "ex_env2 = \<lparr>isEmail = (\<lambda>s. CHR ''@'' \<in> set s), UUIDV4 = ''id-2'', NOW = 2\<rparr>"

definition ex_admin :: principal where
  "ex_admin = \<lparr>role = ''admin'', email = ''root@x.com''\<rparr>"

definition no_attrs :: attrs where
  "no_attrs = \<lparr>id_in = None, invoiceNumber_in = None, customerEmail_in = None, invoiceDate_in = None,
     dueDate_in = None, paymentStatus_in = None, invoiceAmount_in = None, pdfUrl_in = None,
     pdfData_in = None, pdfFileName_in = None, pdfMimeType_in = None, pdfSize_in = None,
     createdAt_in = None, updatedAt_in = None\<rparr>"

definition ex_file :: upload where
  "ex_file = \<lparr>buffer = [0x25, 0x50, 0x44, 0x46], originalname = ''a.pdf'',
     mimetype = ''application/pdf'', size_file = 4\<rparr>"

definition ex_file2 :: upload where
  "ex_file2 = \<lparr>buffer = [1, 2, 3], originalname = ''b.pdf'',
     mimetype = ''application/x-pdf'', size_file = 3\<rparr>"

definition ex_request :: request where
  "ex_request = \<lparr>user = ex_admin, params_id = ''id-1'', params_invoiceNumber = ''inv-001'',
     query_email = None, body = no_attrs, file_req = None, validation_ok = True\<rparr>"

definition ex_create :: request where
  "ex_create = ex_request\<lparr>body := no_attrs\<lparr>invoiceNumber_in := Some ''inv-001'',
       customerEmail_in := Some '' A@X.com '', dueDate_in := Some 20250101,
       invoiceAmount_in := Some 10000\<rparr>,
     file_req := Some ex_file\<rparr>"

definition ex_invoice :: invoice where
  "ex_invoice = \<lparr>invoice_id = ''id-1'', invoiceNumber = ''INV-001'',
     customerEmail = ''a@x.com'', invoiceDate = 1, dueDate = 20250101,
     paymentStatus = Unpaid, pdfUrl = None, pdfData = Some [0x25, 0x50, 0x44, 0x46],
     pdfFileName = Some ''a.pdf'', pdfMimeType = Some ''application/pdf'', pdfSize = Some 4,
     invoiceAmount = 10000, createdAt = 1, updatedAt = 1\<rparr>"

definition ex_create_again :: request where
  "ex_create_again = ex_request\<lparr>body := no_attrs\<lparr>invoiceNumber_in := Some ''INV-001 '',
       customerEmail_in := Some ''b@x.com'', dueDate_in := Some 20250201,
       invoiceAmount_in := Some 500\<rparr>\<rparr>"

definition ex_create_plain :: request where
  "ex_create_plain = ex_request\<lparr>body := no_attrs\<lparr>invoiceNumber_in := Some ''A-1'',
       customerEmail_in := Some ''c@d.com'', dueDate_in := Some 20250101,
       invoiceAmount_in := Some 10000\<rparr>\<rparr>"

definition ex_plain_invoice :: invoice where
  "ex_plain_invoice = \<lparr>invoice_id = ''id-1'', invoiceNumber = ''A-1'',
     customerEmail = ''c@d.com'', invoiceDate = 1, dueDate = 20250101,
     paymentStatus = Unpaid, pdfUrl = None, pdfData = None,
     pdfFileName = None, pdfMimeType = Some ''application/pdf'', pdfSize = None,
     invoiceAmount = 10000, createdAt = 1, updatedAt = 1\<rparr>"

definition ex_update :: request where
  "ex_update = ex_request\<lparr>body := no_attrs\<lparr>invoiceNumber_in := Some '' inv-002 '',
       customerEmail_in := Some '' B@X.com '', paymentStatus_in := Some Paid\<rparr>\<rparr>"

definition ex_updated_invoice :: invoice where
  "ex_updated_invoice = ex_invoice\<lparr>invoiceNumber := ''INV-002'', customerEmail := ''b@x.com'',
     paymentStatus := Paid, updatedAt := 2\<rparr>"

definition ex_update_file :: request where
  "ex_update_file = ex_request\<lparr>file_req := Some ex_file2\<rparr>"

definition ex_refiled_invoice :: invoice where
  "ex_refiled_invoice = ex_invoice\<lparr>pdfData := Some [1, 2, 3], pdfFileName := Some ''b.pdf'',
     pdfMimeType := Some ''application/x-pdf'', pdfSize := Some 3, updatedAt := 2\<rparr>"

definition ex_update_name :: request where
  "ex_update_name = ex_request\<lparr>body := no_attrs\<lparr>pdfFileName_in := Some ''other.pdf''\<rparr>\<rparr>"

definition ex_update_size :: request where
  "ex_update_size = ex_request\<lparr>body := no_attrs\<lparr>pdfSize_in := Some 7\<rparr>\<rparr>"

definition ex_update_file_id :: request where
  "ex_update_file_id =
     ex_request\<lparr>body := no_attrs\<lparr>id_in := Some ''id-7''\<rparr>, file_req := Some ex_file2\<rparr>"

definition ex_rekeyed_invoice :: invoice where
  "ex_rekeyed_invoice = ex_refiled_invoice\<lparr>invoice_id := ''id-7''\<rparr>"

definition ex_get :: "string \<Rightarrow> request" where
  "ex_get e = ex_request\<lparr>user := \<lparr>role = ''customer'', email = e\<rparr>\<rparr>"

section \<open>Strings, store and handlers: auxiliary facts\<close>

lemmas ex_defs = ex_env_def ex_env2_def ex_admin_def no_attrs_def ex_file_def
  ex_file2_def ex_request_def ex_create_def ex_invoice_def ex_create_again_def
  ex_create_plain_def ex_plain_invoice_def ex_update_def ex_updated_invoice_def
  ex_update_file_def ex_refiled_invoice_def ex_update_name_def ex_update_size_def ex_get_def
  ex_update_file_id_def ex_rekeyed_invoice_def

lemma res_send_neq_Error [simp]:
  "res_send headers chunk \<noteq> Error n m" "Error n m \<noteq> res_send headers chunk"
  by (simp_all add: res_send_def)

lemma setHeaders_send_neq_AccessDenied [simp]:
  "setHeaders_send headers chunk \<noteq> AccessDenied"
  "AccessDenied \<noteq> setHeaders_send headers chunk"
  by (simp_all add: setHeaders_send_def)

lemma valid_header_value_simps [simp]:
  "valid_header_value []"
  "valid_header_value (c # s) \<longleftrightarrow> c \<notin> set control_chars \<and> valid_header_value s"
  "valid_header_value (a @ b) \<longleftrightarrow> valid_header_value a \<and> valid_header_value b"
  by (auto simp: valid_header_value_def)

lemma isWhiteSpace_toLowerChar: "isWhiteSpace (toLowerChar c) = isWhiteSpace c"
  by (auto simp: isWhiteSpace_def toLowerChar_def)
lemma dropWhile_ws_lower:
  "dropWhile isWhiteSpace (map toLowerChar s) = map toLowerChar (dropWhile isWhiteSpace s)"
  by (induction s) (simp_all add: isWhiteSpace_toLowerChar)
lemma trim_toLowerCase: "trim (toLowerCase s) = toLowerCase (trim s)"
  by (simp add: trim_def toLowerCase_def rev_map dropWhile_ws_lower)

lemma findByPk_append_fresh:
  "\<forall>x \<in> set table. invoice_id x \<noteq> invoice_id r \<Longrightarrow> findByPk (table @ [r]) (invoice_id r) = Some r"
  by (induction table) (simp_all add: findByPk_def)

lemma build_Inr:
  "build env v = Inr r \<Longrightarrow>
     \<exists>n e d. invoiceNumber_in v = Some n \<and> customerEmail_in v = Some e \<and> dueDate_in v = Some d \<and>
       isEmail env (set_customerEmail e) \<and>
       invoiceNumber r = set_invoiceNumber n \<and> customerEmail r = set_customerEmail e \<and>
       pdfData r = pdfData_in v \<and> pdfFileName r = pdfFileName_in v \<and> pdfSize r = pdfSize_in v \<and>
       pdfMimeType r = (case pdfMimeType_in v of None \<Rightarrow> Some ''application/pdf'' | Some m \<Rightarrow> Some m)"
  by (auto simp: build_def split: option.splits if_splits)

lemma Invoice_create_Inr:
  "Invoice_create env table v = (Inr r, table') \<Longrightarrow>
     build env v = Inr r \<and> table' = table @ [r] \<and>
     (\<forall>x \<in> set table. invoice_id x \<noteq> invoice_id r \<and> invoiceNumber x \<noteq> invoiceNumber r)"
  by (auto simp: Invoice_create_def split: sum.splits if_splits)

lemma Invoice_create_Inl:
  "Invoice_create env table v = (Inl e, table') \<Longrightarrow> table' = table"
  by (auto simp: Invoice_create_def split: sum.splits if_splits)

lemma post_invoice_Created:
  "post_invoice env table req = (Created m r, table') \<Longrightarrow>
     requireAdmin (user req) \<and> validation_ok req \<and> m = ''Invoice created'' \<and>
     Invoice_create env table (invoiceData env req) = (Inr r, table')"
  by (auto simp: post_invoice_def split: if_splits prod.splits sum.splits)

lemma invoiceData_simps:
  "invoiceNumber_in (invoiceData env req) = invoiceNumber_in (body req)"
  "customerEmail_in (invoiceData env req) = customerEmail_in (body req)"
  "dueDate_in (invoiceData env req) = dueDate_in (body req)"
  "invoiceAmount_in (invoiceData env req) = invoiceAmount_in (body req)"
  by (simp_all add: invoiceData_def with_file_def Let_def split: option.splits)

lemma invoiceData_attachment:
  "pdfData_in (invoiceData env req) = map_option buffer (file_req req)"
  "pdfFileName_in (invoiceData env req) = map_option originalname (file_req req)"
  "pdfMimeType_in (invoiceData env req) = map_option mimetype (file_req req)"
  "pdfSize_in (invoiceData env req) = map_option size_file (file_req req)"
  by (simp_all add: invoiceData_def with_file_def Let_def split: option.splits)

lemma merge_invoice_id:
  "invoice_id (merge now v r) = (case id_in v of None \<Rightarrow> invoice_id r | Some i \<Rightarrow> i)"
  by (simp add: merge_def)

lemma findByPk_map_merge_Some:
  "findByPk (map (\<lambda>r. if invoice_id r = pk then merge now v r else r) table) pk = Some r' \<Longrightarrow>
     \<exists>old \<in> set table. invoice_id old = pk \<and> r' = merge now v old"
  by (induction table) (auto simp: findByPk_def split: if_splits)

lemma findByPk_map_merge_same_key:
  "id_in v = None \<Longrightarrow>
     findByPk (map (\<lambda>r. if invoice_id r = pk then merge now v r else r) table) pk =
       map_option (merge now v) (findByPk table pk)"
  by (induction table) (simp_all add: findByPk_def merge_invoice_id)

lemma Invoice_update_table:
  "Invoice_update env table v pk = (res, table') \<Longrightarrow>
     (res = Inr 1 \<and> findByPk table pk \<noteq> None \<and>
      table' = map (\<lambda>r. if invoice_id r = pk then merge (NOW env) (apply_setters v) r else r) table)
     \<or> (res \<noteq> Inr 1 \<and> table' = table)"
  by (auto simp: Invoice_update_def Let_def split: if_splits)

lemma Invoice_update_Inr:
  "Invoice_update env table v pk = (Inr n, table') \<Longrightarrow> n = 0 \<or> n = 1"
  by (auto simp: Invoice_update_def Let_def split: if_splits)

lemma put_invoice_Ok:
  assumes "put_invoice env table req = (Ok_invoice m r, table')"
  shows "\<exists>old \<in> set table. invoice_id old = params_id req \<and>
           requireAdmin (user req) \<and> validation_ok req \<and> m = Some ''Invoice updated'' \<and>
           findByPk table' (params_id req) =
             Some (merge (NOW env) (apply_setters (updates req)) old) \<and>
           r = exclude_pdfData (merge (NOW env) (apply_setters (updates req)) old)"
proof -
  from assms have adm: "requireAdmin (user req)" and ok: "validation_ok req"
    by (auto simp: put_invoice_def split: if_splits)
  obtain res t where u: "Invoice_update env table (updates req) (params_id req) = (res, t)"
    by (cases "Invoice_update env table (updates req) (params_id req)")
  from assms adm ok u obtain n where res: "res = Inr n" and n: "n \<noteq> 0" and t: "t = table'"
    by (cases res) (auto simp: put_invoice_def split: if_splits option.splits)
  from assms adm ok u res n t obtain new where
    f: "findByPk table' (params_id req) = Some new" and r: "r = exclude_pdfData new"
    and m: "m = Some ''Invoice updated''"
    by (auto simp: put_invoice_def split: if_splits option.splits)
  from Invoice_update_Inr[of env table "updates req" "params_id req" n t] u res n
  have "res = Inr 1" by auto
  with Invoice_update_table[OF u] t have
    tab: "table' = map (\<lambda>r. if invoice_id r = params_id req
            then merge (NOW env) (apply_setters (updates req)) r else r) table"
    by auto
  from findByPk_map_merge_Some[OF f[unfolded tab]] obtain old where
    "old \<in> set table" "invoice_id old = params_id req"
    "new = merge (NOW env) (apply_setters (updates req)) old"
    by blast
  with adm ok f r m show ?thesis by blast
qed

lemma updates_metadata:
  "invoiceNumber_in (updates req) = invoiceNumber_in (body req)"
  "customerEmail_in (updates req) = customerEmail_in (body req)"
  "invoiceDate_in (updates req) = invoiceDate_in (body req)"
  "dueDate_in (updates req) = dueDate_in (body req)"
  "paymentStatus_in (updates req) = paymentStatus_in (body req)"
  "invoiceAmount_in (updates req) = invoiceAmount_in (body req)"
  "id_in (updates req) = id_in (body req)"
  by (simp_all add: updates_def with_file_def split: option.splits)

lemma apply_setters_simps:
  "invoiceNumber_in (apply_setters v) = map_option set_invoiceNumber (invoiceNumber_in v)"
  "customerEmail_in (apply_setters v) = map_option set_customerEmail (customerEmail_in v)"
  "invoiceDate_in (apply_setters v) = invoiceDate_in v"
  "dueDate_in (apply_setters v) = dueDate_in v"
  "paymentStatus_in (apply_setters v) = paymentStatus_in v"
  "invoiceAmount_in (apply_setters v) = invoiceAmount_in v"
  "pdfUrl_in (apply_setters v) = pdfUrl_in v"
  "pdfData_in (apply_setters v) = pdfData_in v"
  "pdfFileName_in (apply_setters v) = pdfFileName_in v"
  "pdfMimeType_in (apply_setters v) = pdfMimeType_in v"
  "pdfSize_in (apply_setters v) = pdfSize_in v"
  "id_in (apply_setters v) = id_in v"
  "createdAt_in (apply_setters v) = createdAt_in v"
  by (simp_all add: apply_setters_def)









lemma post_invoice_table:
  "snd (post_invoice env table req) = table \<or>
   (\<exists>r. snd (post_invoice env table req) = table @ [r] \<and> build env (invoiceData env req) = Inr r)"
  by (auto simp: post_invoice_def Invoice_create_def split: sum.splits)

lemma put_invoice_table:
  "snd (put_invoice env table req) = table \<or>
   snd (put_invoice env table req) =
     map (\<lambda>r. if invoice_id r = params_id req
               then merge (NOW env) (apply_setters (updates req)) r else r) table"
proof -
  obtain res t where u: "Invoice_update env table (updates req) (params_id req) = (res, t)"
    by (cases "Invoice_update env table (updates req) (params_id req)")
  have "snd (put_invoice env table req) = table \<or> snd (put_invoice env table req) = t"
    by (auto simp: put_invoice_def u split: sum.splits option.splits)
  with Invoice_update_table[OF u] show ?thesis by auto
qed

lemma delete_invoice_table: "set (snd (delete_invoice table req)) \<subseteq> set table"
  by (auto simp: delete_invoice_def Invoice_destroy_def)

lemma build_attachment_fields_ok:
  "build env (invoiceData env req) = Inr r \<Longrightarrow> attachment_fields_ok r"
  by (drule build_Inr)
     (auto simp: attachment_fields_ok_def invoiceData_attachment split: option.splits)

lemma updates_attachment:
  "pdfData_in (updates req) = (case file_req req of None \<Rightarrow> pdfData_in (body req) | Some f \<Rightarrow> Some (buffer f))"
  "pdfFileName_in (updates req) = (case file_req req of None \<Rightarrow> pdfFileName_in (body req) | Some f \<Rightarrow> Some (originalname f))"
  "pdfMimeType_in (updates req) = (case file_req req of None \<Rightarrow> pdfMimeType_in (body req) | Some f \<Rightarrow> Some (mimetype f))"
  "pdfSize_in (updates req) = (case file_req req of None \<Rightarrow> pdfSize_in (body req) | Some f \<Rightarrow> Some (size_file f))"
  by (simp_all add: updates_def with_file_def split: option.splits)

lemma merge_attachment:
  "pdfData (merge now v r) = (case pdfData_in v of None \<Rightarrow> pdfData r | Some b \<Rightarrow> Some b)"
  "pdfFileName (merge now v r) = (case pdfFileName_in v of None \<Rightarrow> pdfFileName r | Some f \<Rightarrow> Some f)"
  "pdfMimeType (merge now v r) = (case pdfMimeType_in v of None \<Rightarrow> pdfMimeType r | Some m \<Rightarrow> Some m)"
  "pdfSize (merge now v r) = (case pdfSize_in v of None \<Rightarrow> pdfSize r | Some n \<Rightarrow> Some n)"
  by (simp_all add: merge_def)

lemma merge_attachment_fields_ok:
  "attachment_fields_ok r \<Longrightarrow> no_attachment_keys (body req) \<Longrightarrow>
     attachment_fields_ok (merge now (apply_setters (updates req)) r)"
  by (auto simp: attachment_fields_ok_def no_attachment_keys_def merge_attachment
        apply_setters_simps updates_attachment split: option.splits)

lemma Invoice_create_duplicate:
  assumes "x \<in> set table" and "invoiceNumber_in v = Some n" and "invoiceNumber x = set_invoiceNumber n"
    and "customerEmail_in v = Some e" and "isEmail env (set_customerEmail e)" and "dueDate_in v = Some d"
  shows "Invoice_create env table v = (Inl DuplicateKey, table)"
  using assms by (auto simp: Invoice_create_def build_def)

lemma Invoice_update_goes_through:
  assumes "file_req req = Some f"
    and "\<forall>e. customerEmail_in (body req) = Some e \<longrightarrow> isEmail env (set_customerEmail e)"
    and "\<forall>n. invoiceNumber_in (body req) = Some n \<longrightarrow>
           (\<forall>x \<in> set table. invoice_id x \<noteq> params_id req \<longrightarrow> invoiceNumber x \<noteq> set_invoiceNumber n)"
    and "\<forall>i. id_in (body req) = Some i \<longrightarrow>
           (\<forall>x \<in> set table. invoice_id x \<noteq> params_id req \<longrightarrow> invoice_id x \<noteq> i)"
    and "findByPk table (params_id req) = Some old"
  shows "Invoice_update env table (updates req) (params_id req) =
           (Inr 1, map (\<lambda>r. if invoice_id r = params_id req
                          then merge (NOW env) (apply_setters (updates req)) r else r) table)"
proof -
  let ?v = "apply_setters (updates req)"
  have e: "\<not> (case customerEmail_in ?v of None \<Rightarrow> False | Some e \<Rightarrow> \<not> isEmail env e)"
    using assms(2)
    by (cases "customerEmail_in (body req)") (simp_all add: apply_setters_simps updates_metadata)
  have c: "\<not> names_no_column ?v"
    using assms(1) by (simp add: names_no_column_def apply_setters_simps updates_attachment)
  have n: "\<not> (case invoiceNumber_in ?v of None \<Rightarrow> False
            | Some n \<Rightarrow> \<exists>x \<in> set table. invoice_id x \<noteq> params_id req \<and> invoiceNumber x = n)"
    using assms(3)
    by (cases "invoiceNumber_in (body req)") (auto simp: apply_setters_simps updates_metadata)
  have k: "\<not> (case id_in ?v of None \<Rightarrow> False
            | Some i \<Rightarrow> \<exists>x \<in> set table. invoice_id x \<noteq> params_id req \<and> invoice_id x = i)"
    using assms(4)
    by (cases "id_in (body req)") (auto simp: apply_setters_simps updates_metadata)
  from e c n k assms(5) show ?thesis
    by (simp add: Invoice_update_def Let_def)
qed

lemma findByPk_None: "findByPk table pk = None \<longleftrightarrow> (\<forall>x \<in> set table. invoice_id x \<noteq> pk)"
  by (auto simp: findByPk_def find_None_iff)

lemma ex_set_invoiceNumber:
  "set_invoiceNumber ''inv-001'' = ''INV-001''"
  "set_invoiceNumber ''INV-001 '' = ''INV-001''"
  "set_invoiceNumber '' inv-002 '' = ''INV-002''"
  "set_invoiceNumber ''A-1'' = ''A-1''"
  by code_simp+

lemma ex_set_customerEmail:
  "set_customerEmail '' A@X.com '' = ''a@x.com''"
  "set_customerEmail '' B@X.com '' = ''b@x.com''"
  "set_customerEmail ''b@x.com'' = ''b@x.com''"
  "set_customerEmail ''c@d.com'' = ''c@d.com''"
  by code_simp+

lemma ex_toLowerCase: "toLowerCase ''A@x.com'' = ''a@x.com''"
  by code_simp

lemmas ex_eval = ex_defs post_invoice_def put_invoice_def requireAdmin_def Invoice_create_def
  names_no_column_def
  Invoice_update_def build_def invoiceData_def updates_def with_file_def apply_setters_def
  merge_def findByPk_def exclude_pdfData_def ex_set_invoiceNumber ex_set_customerEmail

lemma ex_post: "post_invoice ex_env [] ex_create = (Created ''Invoice created'' ex_invoice, [ex_invoice])"
  by (simp add: ex_eval)

lemma ex_post_plain:
  "post_invoice ex_env [] ex_create_plain = (Created ''Invoice created'' ex_plain_invoice, [ex_plain_invoice])"
  by (simp add: ex_eval)

lemma ex_put:
  "put_invoice ex_env2 [ex_invoice] ex_update =
     (Ok_invoice (Some ''Invoice updated'') (exclude_pdfData ex_updated_invoice), [ex_updated_invoice])"
  by (simp add: ex_eval)

lemma ex_put_file:
  "put_invoice ex_env2 [ex_invoice] ex_update_file =
     (Ok_invoice (Some ''Invoice updated'') (exclude_pdfData ex_refiled_invoice), [ex_refiled_invoice])"
  by (simp add: ex_eval)

lemma ex_put_name:
  "put_invoice ex_env2 [ex_invoice] ex_update_name =
     (Ok_invoice (Some ''Invoice updated'')
        (exclude_pdfData (ex_invoice\<lparr>pdfFileName := Some ''other.pdf'', updatedAt := 2\<rparr>)),
      [ex_invoice\<lparr>pdfFileName := Some ''other.pdf'', updatedAt := 2\<rparr>])"
  by (simp add: ex_eval)

lemma ex_put_name_plain:
  "snd (put_invoice ex_env2 [ex_plain_invoice] ex_update_name) =
      [ex_plain_invoice\<lparr>pdfFileName := Some ''other.pdf'', updatedAt := 2\<rparr>]"
  by (simp add: ex_eval)

lemma ex_put_size:
  "snd (put_invoice ex_env2 [ex_invoice] ex_update_size) =
      [ex_invoice\<lparr>pdfSize := Some 7, updatedAt := 2\<rparr>]"
  by (simp add: ex_eval)

lemma ex_put_empty: "put_invoice ex_env2 [ex_invoice] ex_request = (NotFound, [ex_invoice])"
  by (simp add: ex_eval)

lemma ex_put_file_id:
  "put_invoice ex_env2 [ex_invoice] ex_update_file_id = (ServerError, [ex_rekeyed_invoice])"
  by (simp add: ex_eval)

lemma ex_findByPk: "findByPk [ex_invoice] (params_id (ex_get e)) = Some ex_invoice"
  by (simp add: findByPk_def ex_get_def ex_request_def ex_invoice_def)

text \<open>What the two attachment fetches answer: the three failures, and, when mime type
  and file name are valid header values, the stored bytes with the stored mime type when it is set and not empty and
  \<open>application/pdf\<close> otherwise, the stored file name when it is set and not empty and
  \<open>invoice-{invoiceNumber}.pdf\<close> otherwise, and the number of bytes as content length;
  the two differ in the disposition only.\<close>

lemma attachment_fetch_outcomes:
  "(findByPk table (params_id req) = None \<longrightarrow>
      get_pdf table req = NotFound \<and> get_pdf_view table req = NotFound) \<and>
   (findByPk table (params_id req) = Some invoice \<and> access_denied (user req) invoice \<longrightarrow>
      get_pdf table req = AccessDenied \<and> get_pdf_view table req = AccessDenied) \<and>
   (findByPk table (params_id req) = Some invoice \<and> \<not> access_denied (user req) invoice \<and>
    pdfData invoice = None \<longrightarrow>
      get_pdf table req = AttachmentMissing \<and> get_pdf_view table req = AttachmentMissing) \<and>
   (findByPk table (params_id req) = Some invoice \<and> \<not> access_denied (user req) invoice \<and>
    pdfData invoice = Some data \<and>
    mime = (if pdfMimeType invoice \<in> {None, Some ''''} then ''application/pdf''
            else the (pdfMimeType invoice)) \<and>
    name = (if pdfFileName invoice \<in> {None, Some ''''}
            then ''invoice-'' @ invoiceNumber invoice @ ''.pdf''
            else the (pdfFileName invoice)) \<and>
    valid_header_value mime \<and> valid_header_value name \<longrightarrow>
      get_pdf table req =
        Pdf \<lparr>contentType = mime,
             contentDisposition = ''attachment; filename='' @ [CHR 0x22] @ name @ [CHR 0x22],
             contentLength = int (length data)\<rparr> data \<and>
      get_pdf_view table req =
        Pdf \<lparr>contentType = mime,
             contentDisposition = ''inline; filename='' @ [CHR 0x22] @ name @ [CHR 0x22],
             contentLength = int (length data)\<rparr> data)"
  by (auto simp: get_pdf_def get_pdf_view_def access_denied_def pdf_filename_def
        or_string_def res_send_def setHeaders_send_def control_chars_def split: option.splits)

lemma put_response_excludes_pdfData:
  "put_invoice env table req = (Ok_invoice m r, table') \<Longrightarrow> pdfData r = None"
  by (drule put_invoice_Ok) (auto simp: exclude_pdfData_def)

lemma read_responses_exclude_pdfData:
  "get_invoice table req = Ok_invoice m r \<Longrightarrow> pdfData r = None"
  "get_search table req = Ok_invoice m r \<Longrightarrow> pdfData r = None"
  "get_invoices table req = Ok_invoices rs \<Longrightarrow> r \<in> set rs \<Longrightarrow> pdfData r = None"
  "get_customer table req = Ok_invoices rs \<Longrightarrow> r \<in> set rs \<Longrightarrow> pdfData r = None"
  by (auto simp: get_invoice_def get_search_def get_invoices_def get_customer_def
        findAll_desc_def exclude_pdfData_def split: option.splits if_splits)

section \<open>The claims\<close>

text \<open>
  C1 (amended). For every principal and every invoice that exists, detail-fetch and both
  attachment-fetch modes answer AccessDenied exactly when the principal's role is not
  \<open>admin\<close> and its email, compared as it stands with no case normalization, differs
  from the invoice's stored \<open>customerEmail\<close>; an admin is never denied.
\<close>

theorem C1_access_by_exact_email:
  "findByPk table (params_id req) = Some invoice \<Longrightarrow>
     (get_invoice table req = AccessDenied
        \<longleftrightarrow> \<not> (role (user req) = ''admin'' \<or> email (user req) = customerEmail invoice)) \<and>
     (get_pdf table req = AccessDenied
        \<longleftrightarrow> \<not> (role (user req) = ''admin'' \<or> email (user req) = customerEmail invoice)) \<and>
     (get_pdf_view table req = AccessDenied
        \<longleftrightarrow> \<not> (role (user req) = ''admin'' \<or> email (user req) = customerEmail invoice))"
  by (simp add: get_invoice_def get_pdf_def get_pdf_view_def split: option.splits)

text \<open>The principal \<open>a@x.com\<close> is let through to its own invoice by all three
  operations, the principal \<open>b@x.com\<close> is denied by all three.\<close>

theorem C1_access_by_exact_email_witness:
  "findByPk [ex_invoice] (params_id (ex_get ''a@x.com'')) = Some ex_invoice \<and>
   get_invoice [ex_invoice] (ex_get ''a@x.com'') \<noteq> AccessDenied \<and>
   get_pdf [ex_invoice] (ex_get ''a@x.com'') \<noteq> AccessDenied \<and>
   get_pdf_view [ex_invoice] (ex_get ''a@x.com'') \<noteq> AccessDenied \<and>
   findByPk [ex_invoice] (params_id (ex_get ''b@x.com'')) = Some ex_invoice \<and>
   get_invoice [ex_invoice] (ex_get ''b@x.com'') = AccessDenied \<and>
   get_pdf [ex_invoice] (ex_get ''b@x.com'') = AccessDenied \<and>
   get_pdf_view [ex_invoice] (ex_get ''b@x.com'') = AccessDenied"
  using C1_access_by_exact_email [OF ex_findByPk, of "''a@x.com''"]
    C1_access_by_exact_email [OF ex_findByPk, of "''b@x.com''"]
  by (simp add: ex_findByPk) (simp add: ex_get_def ex_request_def ex_invoice_def)

text \<open>
  C1 as stated fails: the principal \<open>A@x.com\<close> is not an admin and its email in lower
  case is the stored \<open>customerEmail\<close> \<open>a@x.com\<close>, yet all three operations answer
  AccessDenied.
\<close>

theorem C1_case_normalized_counterexample:
  "role (user (ex_get ''A@x.com'')) \<noteq> ''admin'' \<and>
   toLowerCase (email (user (ex_get ''A@x.com''))) = customerEmail ex_invoice \<and>
   findByPk [ex_invoice] (params_id (ex_get ''A@x.com'')) = Some ex_invoice \<and>
   get_invoice [ex_invoice] (ex_get ''A@x.com'') = AccessDenied \<and>
   get_pdf [ex_invoice] (ex_get ''A@x.com'') = AccessDenied \<and>
   get_pdf_view [ex_invoice] (ex_get ''A@x.com'') = AccessDenied"
  by (simp add: get_invoice_def get_pdf_def get_pdf_view_def findByPk_def ex_get_def
        ex_request_def ex_invoice_def ex_toLowerCase)

text \<open>
  C2. Every response except the two attachment fetches is to leave out the \<open>pdfData\<close>
  bytes. The create handler does not: an admin's create request with a four-byte upload is
  answered with the invoice as stored, bytes included. (The update, list, search and detail
  responses do leave them out, see \<open>put_response_excludes_pdfData\<close> and
  \<open>read_responses_exclude_pdfData\<close>.)
\<close>

theorem C2_create_response_carries_pdfData:
  "post_invoice ex_env [] ex_create = (Created ''Invoice created'' ex_invoice, [ex_invoice]) \<and>
   pdfData ex_invoice = Some [0x25, 0x50, 0x44, 0x46]"
  by (simp add: ex_post) (simp add: ex_invoice_def)



text \<open>
  C4 (amended). In every state reached from the empty table by create, update and delete
  requests in which no update body carries an attachment column itself, every invoice has
  either all four attachment columns set, or \<open>pdfData\<close>, \<open>pdfFileName\<close> and
  \<open>pdfSize\<close> unset with \<open>pdfMimeType\<close> holding the column default
  \<open>application/pdf\<close>.
\<close>

theorem C4_attachment_fields_reachable:
  "reachable table \<Longrightarrow> r \<in> set table \<Longrightarrow> attachment_fields_ok r"
proof (induction arbitrary: r rule: reachable.induct)
  case empty
  then show ?case by simp
next
  case (post table env req)
  from post_invoice_table[of env table req] post.prems post.IH show ?case
    by (auto dest: build_attachment_fields_ok)
next
  case (put table req env)
  from put_invoice_table[of env table req] put.prems put.IH put.hyps(2) show ?case
    by (auto simp: merge_attachment_fields_ok)
next
  case (delete table req)
  with delete_invoice_table[of table req] show ?case by blast
qed

text \<open>The table after a create with an upload, and the table after a create without
  one, are reachable and their invoices satisfy the invariant.\<close>

theorem C4_attachment_fields_reachable_witness:
  "reachable [ex_invoice] \<and> ex_invoice \<in> set [ex_invoice] \<and> attachment_fields_ok ex_invoice \<and>
   reachable [ex_plain_invoice] \<and> attachment_fields_ok ex_plain_invoice"
proof -
  have r: "reachable [ex_invoice]"
    using reachable.post [OF reachable.empty, of ex_env ex_create] by (simp add: ex_post)
  have p: "reachable [ex_plain_invoice]"
    using reachable.post [OF reachable.empty, of ex_env ex_create_plain] by (simp add: ex_post_plain)
  from C4_attachment_fields_reachable [OF r, of ex_invoice] C4_attachment_fields_reachable [OF p, of ex_plain_invoice] r p show ?thesis by simp
qed

text \<open>
  C4 as stated fails: after a create without a file the invoice has \<open>pdfMimeType\<close> set
  (the column's default) while \<open>pdfData\<close>, \<open>pdfFileName\<close> and \<open>pdfSize\<close> are
  unset. An update whose body names \<open>pdfFileName\<close> then sets that column alone.
\<close>

theorem C4_all_or_nothing_counterexample:
  "post_invoice ex_env [] ex_create_plain =
     (Created ''Invoice created'' ex_plain_invoice, [ex_plain_invoice]) \<and>
   file_req ex_create_plain = None \<and>
   pdfMimeType ex_plain_invoice = Some ''application/pdf'' \<and>
   pdfData ex_plain_invoice = None \<and> pdfFileName ex_plain_invoice = None \<and>
   pdfSize ex_plain_invoice = None \<and>
   snd (put_invoice ex_env2 [ex_plain_invoice] ex_update_name) =
     [ex_plain_invoice\<lparr>pdfFileName := Some ''other.pdf'', updatedAt := 2\<rparr>]"
  by (simp add: ex_post_plain ex_put_name_plain)
     (simp add: ex_plain_invoice_def ex_create_plain_def ex_request_def)

text \<open>
  C5. An invoice number written by a create or by an update is stored trimmed and in upper
  case. When a create has succeeded, a second create by an admin, valid in its other
  fields, whose number is equal after this normalization makes \<open>Invoice.create\<close> fail
  with DuplicateKey and leaves the table as it was; the handler reports the failure as a
  server error.
\<close>

theorem C5_invoiceNumber_normalized_unique:
  "(post_invoice env table req = (Created m r, table') \<and> invoiceNumber_in (body req) = Some n
      \<longrightarrow> r \<in> set table' \<and> invoiceNumber r = toUpperCase (trim n)) \<and>
   (put_invoice env table req = (Ok_invoice m' r, table') \<and> invoiceNumber_in (body req) = Some n
      \<longrightarrow> (\<exists>r'. findByPk table' (params_id req) = Some r' \<and>
                invoiceNumber r' = toUpperCase (trim n))) \<and>
   (post_invoice env table req = (Created m r, table') \<and> invoiceNumber_in (body req) = Some n \<and>
    requireAdmin (user req2) \<and> validation_ok req2 \<and>
    invoiceNumber_in (body req2) = Some n2 \<and> toUpperCase (trim n2) = toUpperCase (trim n) \<and>
    customerEmail_in (body req2) = Some e2 \<and> isEmail env2 (set_customerEmail e2) \<and>
    dueDate_in (body req2) = Some d2
      \<longrightarrow> Invoice_create env2 table' (invoiceData env2 req2) = (Inl DuplicateKey, table') \<and>
          post_invoice env2 table' req2 = (ServerError, table'))"
proof (intro conjI impI)
  assume a: "post_invoice env table req = (Created m r, table') \<and> invoiceNumber_in (body req) = Some n"
  then have c: "Invoice_create env table (invoiceData env req) = (Inr r, table')"
    using post_invoice_Created by blast
  from Invoice_create_Inr[OF c] build_Inr[of env "invoiceData env req" r] a
  show "r \<in> set table'" and "invoiceNumber r = toUpperCase (trim n)"
    by (auto simp: invoiceData_simps set_invoiceNumber_def)
next
  assume a: "put_invoice env table req = (Ok_invoice m' r, table') \<and> invoiceNumber_in (body req) = Some n"
  then obtain old where
    f: "findByPk table' (params_id req) = Some (merge (NOW env) (apply_setters (updates req)) old)"
    using put_invoice_Ok by blast
  have "invoiceNumber (merge (NOW env) (apply_setters (updates req)) old) = set_invoiceNumber n"
    using a by (simp add: merge_def apply_setters_simps updates_metadata)
  then show "\<exists>r'. findByPk table' (params_id req) = Some r' \<and> invoiceNumber r' = toUpperCase (trim n)"
    using f by (simp add: set_invoiceNumber_def)
next
  assume a: "post_invoice env table req = (Created m r, table') \<and> invoiceNumber_in (body req) = Some n \<and>
    requireAdmin (user req2) \<and> validation_ok req2 \<and>
    invoiceNumber_in (body req2) = Some n2 \<and> toUpperCase (trim n2) = toUpperCase (trim n) \<and>
    customerEmail_in (body req2) = Some e2 \<and> isEmail env2 (set_customerEmail e2) \<and>
    dueDate_in (body req2) = Some d2"
  then have c: "Invoice_create env table (invoiceData env req) = (Inr r, table')"
    using post_invoice_Created by blast
  from Invoice_create_Inr[OF c] build_Inr[of env "invoiceData env req" r] a
  have r: "r \<in> set table'" and n: "invoiceNumber r = set_invoiceNumber n2"
    by (auto simp: invoiceData_simps set_invoiceNumber_def)
  from a have v: "invoiceNumber_in (invoiceData env2 req2) = Some n2"
    "customerEmail_in (invoiceData env2 req2) = Some e2"
    "isEmail env2 (set_customerEmail e2)"
    "dueDate_in (invoiceData env2 req2) = Some d2"
    by (simp_all add: invoiceData_simps)
  have d: "Invoice_create env2 table' (invoiceData env2 req2) = (Inl DuplicateKey, table')"
    by (rule Invoice_create_duplicate[OF r v(1) n v(2) v(3) v(4)])
  from d show "Invoice_create env2 table' (invoiceData env2 req2) = (Inl DuplicateKey, table')" .
  from a d show "post_invoice env2 table' req2 = (ServerError, table')"
    by (simp add: post_invoice_def)
qed

text \<open>Creating \<open>inv-001\<close> stores \<open>INV-001\<close>, updating to \<open>inv-002\<close> between
  blanks stores \<open>INV-002\<close>, and creating \<open>INV-001\<close> with a trailing blank after
  \<open>inv-001\<close> fails with DuplicateKey.\<close>

theorem C5_invoiceNumber_normalized_unique_witness:
  "post_invoice ex_env [] ex_create = (Created ''Invoice created'' ex_invoice, [ex_invoice]) \<and>
   invoiceNumber_in (body ex_create) = Some ''inv-001'' \<and>
   ex_invoice \<in> set [ex_invoice] \<and> invoiceNumber ex_invoice = ''INV-001'' \<and>
   put_invoice ex_env2 [ex_invoice] ex_update =
     (Ok_invoice (Some ''Invoice updated'') (exclude_pdfData ex_updated_invoice),
      [ex_updated_invoice]) \<and>
   invoiceNumber_in (body ex_update) = Some '' inv-002 '' \<and>
   (\<exists>r'. findByPk [ex_updated_invoice] (params_id ex_update) = Some r' \<and>
         invoiceNumber r' = ''INV-002'') \<and>
   invoiceNumber_in (body ex_create_again) = Some ''INV-001 '' \<and>
   Invoice_create ex_env2 [ex_invoice] (invoiceData ex_env2 ex_create_again) =
     (Inl DuplicateKey, [ex_invoice]) \<and>
   post_invoice ex_env2 [ex_invoice] ex_create_again = (ServerError, [ex_invoice])"
proof -
  have b1: "invoiceNumber_in (body ex_create) = Some ''inv-001''"
    by (simp add: ex_create_def ex_request_def no_attrs_def)
  have b2: "invoiceNumber_in (body ex_update) = Some '' inv-002 ''"
    by (simp add: ex_update_def ex_request_def no_attrs_def)
  have b3: "requireAdmin (user ex_create_again) \<and> validation_ok ex_create_again \<and>
    invoiceNumber_in (body ex_create_again) = Some ''INV-001 '' \<and>
    customerEmail_in (body ex_create_again) = Some ''b@x.com'' \<and>
    isEmail ex_env2 (set_customerEmail ''b@x.com'') \<and>
    dueDate_in (body ex_create_again) = Some 20250201"
    by (simp add: ex_create_again_def ex_request_def no_attrs_def requireAdmin_def ex_admin_def
          ex_env2_def ex_set_customerEmail)
  have s: "toUpperCase (trim ''INV-001 '') = toUpperCase (trim ''inv-001'')"
    "toUpperCase (trim ''inv-001'') = ''INV-001''"
    "toUpperCase (trim '' inv-002 '') = ''INV-002''"
    using ex_set_invoiceNumber by (simp_all add: set_invoiceNumber_def)
  from C5_invoiceNumber_normalized_unique [where env = ex_env and table = "[]" and req = ex_create and m = "''Invoice created''"
        and r = ex_invoice and table' = "[ex_invoice]" and n = "''inv-001''"
        and ?req2.0 = ex_create_again and ?n2.0 = "''INV-001 ''" and ?e2.0 = "''b@x.com''"
        and ?env2.0 = ex_env2 and ?d2.0 = 20250201]
    C5_invoiceNumber_normalized_unique [where env = ex_env2 and table = "[ex_invoice]" and req = ex_update
        and r = "exclude_pdfData ex_updated_invoice" and table' = "[ex_updated_invoice]"
        and n = "'' inv-002 ''" and m' = "Some ''Invoice updated''"]
    ex_post ex_put b1 b2 b3 s
  show ?thesis by simp
qed

text \<open>
  C6. An update that comes without a file is to leave the attachment of the invoice as it
  is. The update handler hands every key of the body to \<open>Invoice.update\<close>: an admin's
  update without a file whose body names \<open>pdfFileName\<close> goes through and changes the
  stored file name of the attachment.
\<close>

theorem C6_update_body_changes_filename:
  "findByPk [ex_invoice] (params_id ex_update_name) = Some ex_invoice \<and>
   file_req ex_update_name = None \<and>
   pdfFileName ex_invoice = Some ''a.pdf'' \<and>
   put_invoice ex_env2 [ex_invoice] ex_update_name =
     (Ok_invoice (Some ''Invoice updated'')
        (exclude_pdfData (ex_invoice\<lparr>pdfFileName := Some ''other.pdf'', updatedAt := 2\<rparr>)),
      [ex_invoice\<lparr>pdfFileName := Some ''other.pdf'', updatedAt := 2\<rparr>]) \<and>
   pdfFileName (ex_invoice\<lparr>pdfFileName := Some ''other.pdf'', updatedAt := 2\<rparr>) \<noteq>
     pdfFileName ex_invoice"
  by (simp add: ex_put_name)
     (simp add: findByPk_def ex_update_name_def ex_request_def ex_invoice_def)

text \<open>
  C7. For every update request that comes with a file, every row of the table is afterwards
  either the row it was or a row that had the route's id and now holds the upload's buffer,
  original name, mime type and size in its four attachment columns: no row mixes columns
  of the new upload with columns of a prior attachment. When the principal is an admin, the
  request passed validation, the body names no id, an email in the body is valid and a
  number in the body is not another invoice's, every invoice with the route's id holds the
  upload afterwards and, when there is one, the answer is the updated invoice. An answer
  with the updated invoice always means that the invoice found under the route's id holds
  the upload.
\<close>

theorem C7_update_with_file_replaces:
  assumes "file_req req = Some f"
    and "put_invoice env table req = (resp, table')"
  shows "length table' = length table \<and>
         (\<forall>i < length table.
            table' ! i = table ! i \<or>
            (invoice_id (table ! i) = params_id req \<and> attachment_from f (table' ! i))) \<and>
         (requireAdmin (user req) \<and> validation_ok req \<and> id_in (body req) = None \<and>
          (\<forall>e. customerEmail_in (body req) = Some e \<longrightarrow> isEmail env (set_customerEmail e)) \<and>
          (\<forall>n. invoiceNumber_in (body req) = Some n \<longrightarrow>
             (\<forall>x \<in> set table. invoice_id x \<noteq> params_id req \<longrightarrow>
                invoiceNumber x \<noteq> set_invoiceNumber n))
          \<longrightarrow> (\<forall>i < length table. invoice_id (table ! i) = params_id req \<longrightarrow>
                  attachment_from f (table' ! i)) \<and>
              (findByPk table (params_id req) \<noteq> None \<longrightarrow> (\<exists>m r. resp = Ok_invoice m r))) \<and>
         ((\<exists>m r. resp = Ok_invoice m r) \<longrightarrow>
            (\<exists>new. findByPk table' (params_id req) = Some new \<and> attachment_from f new))"
proof -
  let ?v = "apply_setters (updates req)"
  let ?t = "map (\<lambda>r. if invoice_id r = params_id req then merge (NOW env) ?v r else r) table"
  have from_f: "attachment_from f (merge (NOW env) ?v r)" for r
    using assms(1)
    by (simp add: attachment_from_def merge_attachment apply_setters_simps updates_attachment)
  have rows: "length ?t = length table"
    "\<forall>i < length table. ?t ! i = table ! i \<or>
       (invoice_id (table ! i) = params_id req \<and> attachment_from f (?t ! i))"
    "\<forall>i < length table. invoice_id (table ! i) = params_id req \<longrightarrow> attachment_from f (?t ! i)"
    by (simp_all add: from_f)
  have t: "table' = table \<or> table' = ?t"
    using put_invoice_table[of env table req] assms(2) by simp
  have 1: "length table' = length table"
    using t rows(1) by auto
  have 2: "\<forall>i < length table. table' ! i = table ! i \<or>
            (invoice_id (table ! i) = params_id req \<and> attachment_from f (table' ! i))"
    using t rows(2) by auto
  have 3: "(\<forall>i < length table. invoice_id (table ! i) = params_id req \<longrightarrow>
                  attachment_from f (table' ! i)) \<and>
           (findByPk table (params_id req) \<noteq> None \<longrightarrow> (\<exists>m r. resp = Ok_invoice m r))"
    if go: "requireAdmin (user req) \<and> validation_ok req \<and> id_in (body req) = None \<and>
          (\<forall>e. customerEmail_in (body req) = Some e \<longrightarrow> isEmail env (set_customerEmail e)) \<and>
          (\<forall>n. invoiceNumber_in (body req) = Some n \<longrightarrow>
             (\<forall>x \<in> set table. invoice_id x \<noteq> params_id req \<longrightarrow>
                invoiceNumber x \<noteq> set_invoiceNumber n))"
  proof (cases "findByPk table (params_id req)")
    case None
    then have "\<forall>i < length table. invoice_id (table ! i) \<noteq> params_id req"
      by (simp add: findByPk_None)
    with None show ?thesis by simp
  next
    case (Some old)
    from go have k: "\<forall>k. id_in (body req) = Some k \<longrightarrow>
        (\<forall>x \<in> set table. invoice_id x \<noteq> params_id req \<longrightarrow> invoice_id x \<noteq> k)"
      by simp
    from go have u: "Invoice_update env table (updates req) (params_id req) = (Inr 1, ?t)"
      by (intro Invoice_update_goes_through[OF assms(1) _ _ k Some]) blast+
    from go have "id_in ?v = None"
      by (simp add: apply_setters_simps updates_metadata)
    then have "findByPk ?t (params_id req) = Some (merge (NOW env) ?v old)"
      by (simp add: findByPk_map_merge_same_key Some)
    with go u assms(2) have "table' = ?t" and "\<exists>m r. resp = Ok_invoice m r"
      by (auto simp: put_invoice_def)
    with rows(3) show ?thesis by simp
  qed
  have 4: "\<exists>new. findByPk table' (params_id req) = Some new \<and> attachment_from f new"
    if "\<exists>m r. resp = Ok_invoice m r"
  proof -
    from that obtain m r where "resp = Ok_invoice m r" by blast
    with put_invoice_Ok[of env table req m r table'] assms(2) from_f show ?thesis
      by auto
  qed
  from 1 2 3 4 show ?thesis by blast
qed

text \<open>An admin's update with a three-byte upload replaces the four attachment columns
  of an invoice that held a four-byte attachment. When the body of such an update names a
  new id as well, the answer is the server error and the invoice, now under the new id,
  holds the upload.\<close>

theorem C7_update_with_file_replaces_witness:
  "file_req ex_update_file = Some ex_file2 \<and>
   put_invoice ex_env2 [ex_invoice] ex_update_file =
     (Ok_invoice (Some ''Invoice updated'') (exclude_pdfData ex_refiled_invoice),
      [ex_refiled_invoice]) \<and>
   requireAdmin (user ex_update_file) \<and> validation_ok ex_update_file \<and>
   id_in (body ex_update_file) = None \<and>
   findByPk [ex_invoice] (params_id ex_update_file) \<noteq> None \<and>
   attachment_from ex_file2 ex_refiled_invoice \<and>
   (\<exists>new. findByPk [ex_refiled_invoice] (params_id ex_update_file) = Some new \<and>
      attachment_from ex_file2 new) \<and>
   file_req ex_update_file_id = Some ex_file2 \<and>
   id_in (body ex_update_file_id) = Some ''id-7'' \<and>
   put_invoice ex_env2 [ex_invoice] ex_update_file_id = (ServerError, [ex_rekeyed_invoice]) \<and>
   attachment_from ex_file2 ex_rekeyed_invoice \<and>
   pdfData ex_rekeyed_invoice = Some [1, 2, 3] \<and> pdfFileName ex_rekeyed_invoice = Some ''b.pdf'' \<and>
   pdfMimeType ex_rekeyed_invoice = Some ''application/x-pdf'' \<and>
   pdfSize ex_rekeyed_invoice = Some 3"
proof -
  have h: "file_req ex_update_file = Some ex_file2" "file_req ex_update_file_id = Some ex_file2"
    by (simp_all add: ex_update_file_def ex_update_file_id_def ex_request_def)
  have g: "requireAdmin (user ex_update_file)" "validation_ok ex_update_file"
    "id_in (body ex_update_file) = None" "customerEmail_in (body ex_update_file) = None"
    "invoiceNumber_in (body ex_update_file) = None"
    "params_id ex_update_file = ''id-1''" "invoice_id ex_invoice = ''id-1''"
    "findByPk [ex_invoice] (params_id ex_update_file) \<noteq> None"
    "id_in (body ex_update_file_id) = Some ''id-7''"
    by (simp_all add: requireAdmin_def findByPk_def ex_update_file_def ex_update_file_id_def
          ex_request_def ex_admin_def no_attrs_def ex_invoice_def)
  from C7_update_with_file_replaces [OF h(1) ex_put_file] g
  have a: "attachment_from ex_file2 ex_refiled_invoice"
    "\<exists>new. findByPk [ex_refiled_invoice] (params_id ex_update_file) = Some new \<and>
      attachment_from ex_file2 new"
    by simp_all
  have d: "ex_rekeyed_invoice \<noteq> ex_invoice"
    by (simp add: ex_rekeyed_invoice_def ex_refiled_invoice_def ex_invoice_def)
  from C7_update_with_file_replaces [OF h(2) ex_put_file_id] d
  have b: "attachment_from ex_file2 ex_rekeyed_invoice"
    by simp
  then have c: "pdfData ex_rekeyed_invoice = Some [1, 2, 3]"
    "pdfFileName ex_rekeyed_invoice = Some ''b.pdf''"
    "pdfMimeType ex_rekeyed_invoice = Some ''application/x-pdf''"
    "pdfSize ex_rekeyed_invoice = Some 3"
    by (simp_all add: attachment_from_def ex_file2_def)
  from h g a b c ex_put_file ex_put_file_id show ?thesis by simp
qed

text \<open>
  C8. The attachment fetch is to report a content length equal to the stored \<open>pdfSize\<close>.
  The handlers set that header and then send the buffer, which sets the content length to
  the number of bytes: after an update whose body sets \<open>pdfSize\<close> to 7 on a four-byte
  attachment, the stored size is 7 and both fetches report the content length 4. (The
  other parts of the claim hold, see \<open>attachment_fetch_outcomes\<close>.)
\<close>

theorem C8_content_length_is_byte_length:
  "snd (put_invoice ex_env2 [ex_invoice] ex_update_size) =
     [ex_invoice\<lparr>pdfSize := Some 7, updatedAt := 2\<rparr>] \<and>
   pdfSize (ex_invoice\<lparr>pdfSize := Some 7, updatedAt := 2\<rparr>) = Some 7 \<and>
   get_pdf [ex_invoice\<lparr>pdfSize := Some 7, updatedAt := 2\<rparr>] (ex_get ''a@x.com'') =
     Pdf \<lparr>contentType = ''application/pdf'',
          contentDisposition = ''attachment; filename='' @ [CHR 0x22] @ ''a.pdf'' @ [CHR 0x22],
          contentLength = 4\<rparr> [0x25, 0x50, 0x44, 0x46] \<and>
   get_pdf_view [ex_invoice\<lparr>pdfSize := Some 7, updatedAt := 2\<rparr>] (ex_get ''a@x.com'') =
     Pdf \<lparr>contentType = ''application/pdf'',
          contentDisposition = ''inline; filename='' @ [CHR 0x22] @ ''a.pdf'' @ [CHR 0x22],
          contentLength = 4\<rparr> [0x25, 0x50, 0x44, 0x46]"
  by (simp add: ex_put_size)
     (simp add: get_pdf_def get_pdf_view_def findByPk_def pdf_filename_def or_string_def
        or_int_def res_send_def setHeaders_send_def control_chars_def ex_get_def ex_request_def
        ex_invoice_def)

text \<open>
  C9. For every email written by a create or by an update that goes through, reading the
  invoice back from the table gives a \<open>customerEmail\<close> equal to the trimmed, lower-case
  form of that email.
\<close>

theorem C9_customerEmail_roundtrip:
  "(post_invoice env table req = (Created m r, table') \<and> customerEmail_in (body req) = Some e
      \<longrightarrow> (\<exists>r'. findByPk table' (invoice_id r) = Some r' \<and> customerEmail r' = toLowerCase (trim e)))
   \<and> (put_invoice env table req = (Ok_invoice m' r, table') \<and> customerEmail_in (body req) = Some e
      \<longrightarrow> (\<exists>r'. findByPk table' (params_id req) = Some r' \<and> customerEmail r' = toLowerCase (trim e)))"
proof (intro conjI impI)
  assume a: "post_invoice env table req = (Created m r, table') \<and> customerEmail_in (body req) = Some e"
  then have c: "Invoice_create env table (invoiceData env req) = (Inr r, table')"
    using post_invoice_Created by blast
  from Invoice_create_Inr[OF c] have b: "build env (invoiceData env req) = Inr r"
    and t: "table' = table @ [r]" and fresh: "\<forall>x \<in> set table. invoice_id x \<noteq> invoice_id r"
    by auto
  from build_Inr[OF b] a have "customerEmail r = set_customerEmail e"
    by (auto simp: invoiceData_simps)
  then have "customerEmail r = toLowerCase (trim e)"
    by (simp add: set_customerEmail_def trim_toLowerCase)
  moreover have "findByPk table' (invoice_id r) = Some r"
    unfolding t using fresh by (rule findByPk_append_fresh)
  ultimately show "\<exists>r'. findByPk table' (invoice_id r) = Some r' \<and> customerEmail r' = toLowerCase (trim e)"
    by blast
next
  assume a: "put_invoice env table req = (Ok_invoice m' r, table') \<and> customerEmail_in (body req) = Some e"
  then obtain old where
    f: "findByPk table' (params_id req) = Some (merge (NOW env) (apply_setters (updates req)) old)"
    using put_invoice_Ok by blast
  have "customerEmail (merge (NOW env) (apply_setters (updates req)) old) = set_customerEmail e"
    using a by (simp add: merge_def apply_setters_simps updates_metadata)
  then show "\<exists>r'. findByPk table' (params_id req) = Some r' \<and> customerEmail r' = toLowerCase (trim e)"
    using f by (simp add: set_customerEmail_def trim_toLowerCase)
qed

text \<open>The emails \<open>A@X.com\<close> and \<open>B@X.com\<close>, each between blanks, are read back
  as \<open>a@x.com\<close> and \<open>b@x.com\<close>.\<close>

theorem C9_customerEmail_roundtrip_witness:
  "post_invoice ex_env [] ex_create = (Created ''Invoice created'' ex_invoice, [ex_invoice]) \<and>
   customerEmail_in (body ex_create) = Some '' A@X.com '' \<and>
   (\<exists>r'. findByPk [ex_invoice] (invoice_id ex_invoice) = Some r' \<and>
         customerEmail r' = ''a@x.com'') \<and>
   put_invoice ex_env2 [ex_invoice] ex_update =
     (Ok_invoice (Some ''Invoice updated'') (exclude_pdfData ex_updated_invoice),
      [ex_updated_invoice]) \<and>
   customerEmail_in (body ex_update) = Some '' B@X.com '' \<and>
   (\<exists>r'. findByPk [ex_updated_invoice] (params_id ex_update) = Some r' \<and>
         customerEmail r' = ''b@x.com'')"
proof -
  have b: "customerEmail_in (body ex_create) = Some '' A@X.com ''"
    "customerEmail_in (body ex_update) = Some '' B@X.com ''"
    by (simp_all add: ex_create_def ex_update_def ex_request_def no_attrs_def)
  have s: "toLowerCase (trim '' A@X.com '') = ''a@x.com''"
    "toLowerCase (trim '' B@X.com '') = ''b@x.com''"
    using ex_set_customerEmail by (simp_all add: set_customerEmail_def trim_toLowerCase)
  from C9_customerEmail_roundtrip [where env = ex_env and table = "[]" and req = ex_create and m = "''Invoice created''"
        and r = ex_invoice and table' = "[ex_invoice]" and e = "'' A@X.com ''"]
    C9_customerEmail_roundtrip [where env = ex_env2 and table = "[ex_invoice]" and req = ex_update
        and m' = "Some ''Invoice updated''" and r = "exclude_pdfData ex_updated_invoice"
        and table' = "[ex_updated_invoice]" and e = "'' B@X.com ''"]
    ex_post ex_put b s
  show ?thesis by simp
qed

text \<open>
  C10. Search-by-number compares its argument with the stored number as it is: the invoice
  created under \<open>inv-001\<close> is stored as \<open>INV-001\<close>; searching for \<open>inv-001\<close>, the
  form given at creation, or for \<open>INV-001\<close> after a blank answers NotFound, and searching
  for \<open>INV-001\<close> returns it.
\<close>

theorem C10_search_not_normalized:
  "post_invoice ex_env [] ex_create = (Created ''Invoice created'' ex_invoice, [ex_invoice]) \<and>
   invoiceNumber_in (body ex_create) = Some ''inv-001'' \<and>
   invoiceNumber ex_invoice = ''INV-001'' \<and>
   get_search [ex_invoice] (ex_request\<lparr>params_invoiceNumber := ''inv-001''\<rparr>) = NotFound \<and>
   get_search [ex_invoice] (ex_request\<lparr>params_invoiceNumber := '' INV-001''\<rparr>) = NotFound \<and>
   get_search [ex_invoice] (ex_request\<lparr>params_invoiceNumber := ''INV-001''\<rparr>) =
     Ok_invoice None (exclude_pdfData ex_invoice)"
  by (simp add: ex_post)
     (simp add: get_search_def findOne_invoiceNumber_def ex_create_def ex_request_def
        no_attrs_def ex_invoice_def)

end
